theory Spec2Isabelle
  imports Complex_Main
begin

section \<open>Hostname sanitisation\<close>

text \<open>
  The source:
  \<^verbatim>\<open>
  def _sanitize_hostname(s: str):
      return re.sub("[^0-9a-zA-Z]+", "", s)
  \<close>
  A string is a \<open>char list\<close>. A character outside ASCII is one or more bytes, each of
  them at least 128, so the negated class matches all of them, as it matches the code
  point in Python.
\<close>

definition in_range :: "char \<Rightarrow> char \<Rightarrow> char \<Rightarrow> bool" where
  "in_range lo hi c \<longleftrightarrow> (of_char lo :: nat) \<le> of_char c \<and> (of_char c :: nat) \<le> of_char hi"

definition class_neg_0_9_a_z_A_Z :: "char \<Rightarrow> bool" where
  \<comment> \<open>the character class \<open>[^0-9a-zA-Z]\<close>\<close>
  "class_neg_0_9_a_z_A_Z c \<longleftrightarrow>
     \<not> (in_range CHR ''0'' CHR ''9'' c \<or> in_range CHR ''a'' CHR ''z'' c \<or> in_range CHR ''A'' CHR ''Z'' c)"

function re_sub_class_plus_empty :: "(char \<Rightarrow> bool) \<Rightarrow> string \<Rightarrow> string" where
  \<comment> \<open>\<open>re.sub("[cls]+", "", s)\<close>: scanning from the left, a longest non-empty run of
      characters of the class is replaced by the empty string; any other character is kept\<close>
  "re_sub_class_plus_empty cls [] = []"
| "re_sub_class_plus_empty cls (c # cs) =
     (if cls c then re_sub_class_plus_empty cls (dropWhile cls cs)
      else c # re_sub_class_plus_empty cls cs)"
  by pat_completeness auto
termination
  by (relation "measure (\<lambda>(cls, s). length s)")
     (auto simp: less_Suc_eq_le length_dropWhile_le)

definition sanitize_hostname :: "string \<Rightarrow> string" where
  "sanitize_hostname s = re_sub_class_plus_empty class_neg_0_9_a_z_A_Z s"

definition is_digit_or_letter :: "char \<Rightarrow> bool" where
  \<comment> \<open>the claim's words: a digit or a letter\<close>
  "is_digit_or_letter c \<longleftrightarrow>
     c \<in> set ''0123456789abcdefghijklmnopqrstuvwxyzABCDEFGHIJKLMNOPQRSTUVWXYZ''"

section \<open>Messages\<close>

text \<open>
  \<open>geometry_msgs\<close> vectors, points and quaternions are tuples of reals in the order
  \<open>x, y, z\<close> and \<open>x, y, z, w\<close>, the order in which the source copies them into numpy
  arrays. Floating-point numbers are idealised as reals.
\<close>

type_synonym Vector3 = "real \<times> real \<times> real"
type_synonym Quaternion = "real \<times> real \<times> real \<times> real"

record Transform =
  translation :: Vector3
  rotation :: Quaternion

datatype frame_type = TYPE_DUCKIEBOT_TAG | TYPE_DUCKIEBOT_FOOTPRINT

record AutolabReferenceFrame =
  time :: nat
  type :: frame_type
  name :: string
  robot :: string

record AutolabTransform =
  origin :: AutolabReferenceFrame
  target :: AutolabReferenceFrame
  is_fixed :: bool
  is_static :: bool
  transform :: Transform

text \<open>\<open>nav_msgs/Odometry\<close>: \<open>header.stamp\<close>, \<open>pose.pose.position\<close>, \<open>pose.pose.orientation\<close>.\<close>

record Odometry =
  stamp :: nat
  position :: Vector3
  orientation :: Quaternion

text \<open>The \<open>TransformStamped\<close> that \<open>lookup_transform\<close> returns: \<open>header.stamp\<close> and \<open>transform\<close>.\<close>

record TransformStamped =
  header_stamp :: nat
  stamped_transform :: Transform

section \<open>The library functions of \<open>tf.transformations\<close> and numpy that the node calls\<close>

text \<open>
  These are not code of the repository; they are written here as the library defines them
  (quaternions in the order \<open>x, y, z, w\<close>):
  \<^verbatim>\<open>
  def quaternion_multiply(quaternion1, quaternion0):
      x0, y0, z0, w0 = quaternion0
      x1, y1, z1, w1 = quaternion1
      return numpy.array((
           x1*w0 + y1*z0 - z1*y0 + w1*x0,
          -x1*z0 + y1*w0 + z1*x0 + w1*y0,
           x1*y0 - y1*x0 + z1*w0 + w1*z0,
          -x1*x0 - y1*y0 - z1*z0 + w1*w0))

  def quaternion_conjugate(quaternion):
      return numpy.array((-quaternion[0], -quaternion[1], -quaternion[2], quaternion[3]))

  _EPS = numpy.finfo(float).eps * 4.0

  def quaternion_matrix(quaternion):
      q = numpy.array(quaternion[:4], dtype=numpy.float64, copy=True)
      nq = numpy.dot(q, q)
      if nq < _EPS:
          return numpy.identity(4)
      q *= math.sqrt(2.0 / nq)
      q = numpy.outer(q, q)
      return numpy.array((
          (1.0-q[1, 1]-q[2, 2],     q[0, 1]-q[2, 3],     q[0, 2]+q[1, 3], 0.0),
          (    q[0, 1]+q[2, 3], 1.0-q[0, 0]-q[2, 2],     q[1, 2]-q[0, 3], 0.0),
          (    q[0, 2]-q[1, 3],     q[1, 2]+q[0, 3], 1.0-q[0, 0]-q[1, 1], 0.0),
          (                0.0,                 0.0,                 0.0, 1.0)))
  \<close>
\<close>

fun quaternion_multiply :: "Quaternion \<Rightarrow> Quaternion \<Rightarrow> Quaternion" where
  "quaternion_multiply (x1, y1, z1, w1) (x0, y0, z0, w0) =
     (x1*w0 + y1*z0 - z1*y0 + w1*x0,
      - x1*z0 + y1*w0 + z1*x0 + w1*y0,
      x1*y0 - y1*x0 + z1*w0 + w1*z0,
      - x1*x0 - y1*y0 - z1*z0 + w1*w0)"

fun quaternion_conjugate :: "Quaternion \<Rightarrow> Quaternion" where
  "quaternion_conjugate (x, y, z, w) = (- x, - y, - z, w)"

definition EPS :: real where
  "EPS = 4 / 2 ^ 52"

type_synonym Matrix4 =
  "(real \<times> real \<times> real \<times> real) \<times> (real \<times> real \<times> real \<times> real)
   \<times> (real \<times> real \<times> real \<times> real) \<times> (real \<times> real \<times> real \<times> real)"

type_synonym Matrix3 =
  "(real \<times> real \<times> real) \<times> (real \<times> real \<times> real) \<times> (real \<times> real \<times> real)"

fun quaternion_matrix :: "Quaternion \<Rightarrow> Matrix4" where
  "quaternion_matrix (x, y, z, w) =
     (let nq = x*x + y*y + z*z + w*w in
      if nq < EPS then ((1, 0, 0, 0), (0, 1, 0, 0), (0, 0, 1, 0), (0, 0, 0, 1))
      else
        let s = sqrt (2 / nq);
            q0 = x * s; q1 = y * s; q2 = z * s; q3 = w * s
        in ((1 - q1*q1 - q2*q2, q0*q1 - q2*q3, q0*q2 + q1*q3, 0),
            (q0*q1 + q2*q3, 1 - q0*q0 - q2*q2, q1*q2 - q0*q3, 0),
            (q0*q2 - q1*q3, q1*q2 + q0*q3, 1 - q0*q0 - q1*q1, 0),
            (0, 0, 0, 1)))"

fun top_left_3x3 :: "Matrix4 \<Rightarrow> Matrix3" where
  \<comment> \<open>the slice \<open>m[0:3][:,0:3]\<close>\<close>
  "top_left_3x3 ((a00, a01, a02, a03), (a10, a11, a12, a13), (a20, a21, a22, a23), r3) =
     ((a00, a01, a02), (a10, a11, a12), (a20, a21, a22))"

fun dot3 :: "Matrix3 \<Rightarrow> Vector3 \<Rightarrow> Vector3" where
  \<comment> \<open>\<open>np.dot\<close> of a 3x3 matrix and a vector, flattened\<close>
  "dot3 ((a00, a01, a02), (a10, a11, a12), (a20, a21, a22)) (x, y, z) =
     (a00*x + a01*y + a02*z, a10*x + a11*y + a12*z, a20*x + a21*y + a22*z)"

fun sub3 :: "Vector3 \<Rightarrow> Vector3 \<Rightarrow> Vector3" where
  "sub3 (x1, y1, z1) (x0, y0, z0) = (x1 - x0, y1 - y0, z1 - z0)"

fun norm3 :: "Vector3 \<Rightarrow> real" where
  \<comment> \<open>\<open>np.linalg.norm\<close> of a vector of three components\<close>
  "norm3 (x, y, z) = sqrt (x*x + y*y + z*z)"

fun negate_w :: "Quaternion \<Rightarrow> Quaternion" where
  \<comment> \<open>\<open>q[3] *= -1\<close>\<close>
  "negate_w (x, y, z, w) = (x, y, z, w * (- 1))"

fun negate_all :: "Quaternion \<Rightarrow> Quaternion" where
  \<comment> \<open>the quaternion \<open>-q\<close>, which stands for the same rotation as \<open>q\<close>\<close>
  "negate_all (x, y, z, w) = (- x, - y, - z, - w)"

section \<open>The node\<close>

text \<open>
  The state of \<open>DistributedTFNode\<close>. The dictionary \<open>_static_tfs\<close> is an association
  list in insertion order whose values may be \<open>None\<close>; \<open>_tf_static_timer\<close> is \<open>None\<close>
  while the attribute does not exist yet. The publisher of the communication group and the
  logger are outside the repository: \<open>published\<close> and \<open>logged\<close> record the calls made to
  them, in order; what the publisher does with a message that is \<open>None\<close> is not
  part of the model.
\<close>

datatype error = Exit nat | Uncaught

datatype timer = Running | Shutdown

datatype severity = INFO | WARN | ERR

datatype lookup_result =
    Found TransformStamped
  | LookupException
  | ExtrapolationException
  | ConnectivityException
  | OtherException

record node =
  robot_hostname :: string
  map_name :: string
  tag_id :: string
  min_dist_odom :: real
  tag_frame :: string
  footprint_frame :: string
  static_tfs :: "((string \<times> string) \<times> AutolabTransform option) list"
  tf_static_timer :: "timer option"
  pub_timer :: "timer option"
  pose_last :: "Odometry option"
  published :: "(AutolabTransform option \<times> string) list"
  logged :: "(severity \<times> string) list"

definition MIN_DIST_ODOM :: real where
  "MIN_DIST_ODOM = 0.2"

fun dict_set :: "('k \<times> 'v) list \<Rightarrow> 'k \<Rightarrow> 'v \<Rightarrow> ('k \<times> 'v) list" where
  \<comment> \<open>\<open>d[k] = v\<close>: an existing key keeps its place, a new key goes to the end\<close>
  "dict_set [] k v = [(k, v)]"
| "dict_set ((k', v') # d) k v =
     (if k' = k then (k', v) # d else (k', v') # dict_set d k v)"

definition dict_values :: "('k \<times> 'v) list \<Rightarrow> 'v list" where
  "dict_values d = map snd d"

definition dict_get :: "('k \<times> 'v) list \<Rightarrow> 'k \<Rightarrow> 'v option" where
  "dict_get d k = map_of d k"

definition publish :: "AutolabTransform option \<Rightarrow> string \<Rightarrow> node \<Rightarrow> node" where
  \<comment> \<open>\<open>self._tf_pub.publish(tf, destination=...)\<close>\<close>
  "publish tf destination self = self\<lparr>published := published self @ [(tf, destination)]\<rparr>"

definition static_tf_msg :: "node \<Rightarrow> TransformStamped \<Rightarrow> AutolabTransform" where
  \<comment> \<open>the message built in \<open>_fetch_static_tfs\<close>\<close>
  "static_tf_msg self tr =
     \<lparr>origin = \<lparr>time = header_stamp tr, type = TYPE_DUCKIEBOT_TAG,
                 name = tag_frame self, robot = robot_hostname self\<rparr>,
      target = \<lparr>time = header_stamp tr, type = TYPE_DUCKIEBOT_FOOTPRINT,
                 name = footprint_frame self, robot = robot_hostname self\<rparr>,
      is_fixed = True,
      is_static = False,
      transform = stamped_transform tr\<rparr>"

definition fetch_static_tfs :: "lookup_result \<Rightarrow> node \<Rightarrow> error + node" where
  \<comment> \<open>the argument is what \<open>lookup_transform(origin, target, rospy.Time())\<close> does in this call\<close>
  "fetch_static_tfs r self =
     (let orig = tag_frame self; targ = footprint_frame self in
      case r of
        Found tr \<Rightarrow>
          let tf = static_tf_msg self tr;
              self1 = self\<lparr>static_tfs := dict_set (static_tfs self) (orig, targ) (Some tf)\<rparr>;
              self2 = self1\<lparr>logged := logged self1 @
                [(INFO, ''All static TFs needed have been fetched. Disabling TF listener.'')]\<rparr>
          in Inr (case tf_static_timer self2 of
                    None \<Rightarrow> self2
                  | Some t \<Rightarrow> self2\<lparr>tf_static_timer := Some Shutdown\<rparr>)
      | LookupException \<Rightarrow>
          Inr (self\<lparr>logged := logged self @
            [(WARN, ''Could not find a static TF ['' @ orig @ ''] -> ['' @ targ @ '']'')]\<rparr>)
      | ExtrapolationException \<Rightarrow>
          Inr (self\<lparr>logged := logged self @
            [(WARN, ''Could not find a static TF ['' @ orig @ ''] -> ['' @ targ @ '']'')]\<rparr>)
      | ConnectivityException \<Rightarrow> Inr self
      | OtherException \<Rightarrow> Inl Uncaught)"

definition snapshot :: "node \<Rightarrow> AutolabTransform option list" where
  \<comment> \<open>the list \<open>tfs\<close> that \<open>_publish_static_tfs\<close> collects under the semaphore\<close>
  "snapshot self = foldl (\<lambda>tfs t. tfs @ [t]) [] (dict_values (static_tfs self))"

definition publish_static_tfs :: "node \<Rightarrow> node" where
  "publish_static_tfs self = foldl (\<lambda>s tf. publish tf (map_name self) s) self (snapshot self)"

definition init :: "string option \<Rightarrow> string option \<Rightarrow> string option \<Rightarrow> lookup_result \<Rightarrow> error + node" where
  \<comment> \<open>\<open>__init__\<close>: the parameters \<open>~veh\<close>, \<open>~map\<close>, \<open>~tag_id\<close> (\<open>None\<close> when not set) and
      what the lookup of the immediate first fetch does\<close>
  "init veh mp tag r =
     (case veh of None \<Rightarrow> Inl (Exit 1) | Some hostname \<Rightarrow>
      case mp of None \<Rightarrow> Inl (Exit 2) | Some m \<Rightarrow>
      case tag of None \<Rightarrow> Inl (Exit 3) | Some tid \<Rightarrow>
        let self = \<lparr>robot_hostname = hostname,
                    map_name = sanitize_hostname m,
                    tag_id = tid,
                    min_dist_odom = MIN_DIST_ODOM,
                    tag_frame = ''tag/'' @ tid,
                    footprint_frame = hostname @ ''/footprint'',
                    static_tfs = [((hostname @ ''/footprint'', ''tag/'' @ tid), None)],
                    tf_static_timer = None,
                    pub_timer = None,
                    pose_last = None,
                    published = [],
                    logged = []\<rparr>
        in if tid \<noteq> ''__NOTSET__'' then
             (case fetch_static_tfs r self of
                Inl e \<Rightarrow> Inl e
              | Inr self1 \<Rightarrow>
                  Inr ((publish_static_tfs self1)
                         \<lparr>tf_static_timer := Some Running, pub_timer := Some Running\<rparr>))
           else Inr self)"

definition q_now_to_last :: "Odometry \<Rightarrow> Odometry \<Rightarrow> Quaternion" where
  \<comment> \<open>lines 184 to 192 of the source\<close>
  "q_now_to_last last_pose pose_now =
     (let q_now_to_world = orientation pose_now;
          q_last_to_world = orientation last_pose;
          q_world_to_last = negate_w q_last_to_world
      in quaternion_multiply q_world_to_last q_now_to_world)"

definition t_now_to_last :: "Odometry \<Rightarrow> Odometry \<Rightarrow> Vector3" where
  \<comment> \<open>lines 176 to 201 of the source\<close>
  "t_now_to_last last_pose pose_now =
     (let t_now_to_world = position pose_now;
          t_last_to_world = position last_pose;
          now_to_last = top_left_3x3 (quaternion_matrix (q_now_to_last last_pose pose_now))
      in dot3 now_to_last (sub3 t_now_to_world t_last_to_world))"

definition odometry_tf_msg :: "node \<Rightarrow> Odometry \<Rightarrow> Odometry \<Rightarrow> AutolabTransform" where
  \<comment> \<open>the message built in \<open>_cb_odometry\<close>\<close>
  "odometry_tf_msg self last_pose pose_now =
     \<lparr>origin = \<lparr>time = stamp last_pose, type = TYPE_DUCKIEBOT_FOOTPRINT,
                 name = footprint_frame self, robot = robot_hostname self\<rparr>,
      target = \<lparr>time = stamp pose_now, type = TYPE_DUCKIEBOT_FOOTPRINT,
                 name = footprint_frame self, robot = robot_hostname self\<rparr>,
      is_fixed = False,
      is_static = False,
      transform = \<lparr>translation = t_now_to_last last_pose pose_now,
                   rotation = q_now_to_last last_pose pose_now\<rparr>\<rparr>"

definition cb_odometry :: "Odometry \<Rightarrow> node \<Rightarrow> node" where
  "cb_odometry pose_now self =
     (case pose_last self of
        None \<Rightarrow> self\<lparr>pose_last := Some pose_now\<rparr>
      | Some last_pose \<Rightarrow>
          let dist = norm3 (t_now_to_last last_pose pose_now) in
          if dist < min_dist_odom self then self
          else publish (Some (odometry_tf_msg self last_pose pose_now)) (map_name self) self)"

text \<open>
  The claims speak of the displacement rotated by a quaternion; that is the product with
  the rotation matrix of the quaternion.
\<close>

definition rotate_by :: "Quaternion \<Rightarrow> Vector3 \<Rightarrow> Vector3" where
  "rotate_by q v = dot3 (top_left_3x3 (quaternion_matrix q)) v"

section \<open>Concrete inputs\<close>

text \<open>
  A node started with \<open>~veh = autobot01\<close>, \<open>~map = lab-1\<close>, \<open>~tag_id = 1\<close> whose first
  lookup fails with a connectivity error (\<open>fresh_node\<close>), the same node started without a
  tag (\<open>odom_node\<close>), four odometry samples, and two results of the calibration lookup.
\<close>

definition fresh_node :: node where
  "fresh_node =
     \<lparr>robot_hostname = ''autobot01'',
      map_name = ''lab1'',
      tag_id = ''1'',
      min_dist_odom = 0.2,
      tag_frame = ''tag/1'',
      footprint_frame = ''autobot01/footprint'',
      static_tfs = [((''autobot01/footprint'', ''tag/1''), None)],
      tf_static_timer = Some Running,
      pub_timer = Some Running,
      pose_last = None,
      published = [(None, ''lab1'')],
      logged = []\<rparr>"

definition odom_node :: node where
  \<comment> \<open>the node started with \<open>~tag_id = __NOTSET__\<close>: no fetch, no publish, no timers\<close>
  "odom_node =
     \<lparr>robot_hostname = ''autobot01'',
      map_name = ''lab1'',
      tag_id = ''__NOTSET__'',
      min_dist_odom = 0.2,
      tag_frame = ''tag/__NOTSET__'',
      footprint_frame = ''autobot01/footprint'',
      static_tfs = [((''autobot01/footprint'', ''tag/__NOTSET__''), None)],
      tf_static_timer = None,
      pub_timer = None,
      pose_last = None,
      published = [],
      logged = []\<rparr>"

definition pose0 :: Odometry where
  "pose0 = \<lparr>stamp = 0, position = (0, 0, 0), orientation = (0, 0, 0, 1)\<rparr>"

definition pose_near :: Odometry where
  "pose_near = \<lparr>stamp = 1, position = (0.1, 0, 0), orientation = (0, 0, 0, 1)\<rparr>"

definition pose_far :: Odometry where
  "pose_far = \<lparr>stamp = 2, position = (0.3, 0, 0), orientation = (0, 0, 0, 1)\<rparr>"

definition pose_turned :: Odometry where
  \<comment> \<open>one unit ahead, turned by half a turn about the vertical axis\<close>
  "pose_turned = \<lparr>stamp = 3, position = (1, 0, 0), orientation = (0, 0, 1, 0)\<rparr>"

definition calib1 :: TransformStamped where
  "calib1 = \<lparr>header_stamp = 5,
             stamped_transform = \<lparr>translation = (0, 0, 0.1), rotation = (0, 0, 0, 1)\<rparr>\<rparr>"

definition calib2 :: TransformStamped where
  "calib2 = \<lparr>header_stamp = 65,
             stamped_transform = \<lparr>translation = (0, 0, 0.2), rotation = (0, 0, 0, 1)\<rparr>\<rparr>"

text \<open>
  The node after a first successful lookup (\<open>calib1\<close>) and after a second one
  (\<open>calib2\<close>).
\<close>

definition fetched_node :: node where
  "fetched_node =
     fresh_node\<lparr>static_tfs :=
                  [((''autobot01/footprint'', ''tag/1''), None),
                   ((''tag/1'', ''autobot01/footprint''), Some (static_tf_msg fresh_node calib1))],
                logged :=
                  [(INFO, ''All static TFs needed have been fetched. Disabling TF listener.'')],
                tf_static_timer := Some Shutdown\<rparr>"

definition refetched_node :: node where
  "refetched_node =
     fetched_node\<lparr>static_tfs :=
                  [((''autobot01/footprint'', ''tag/1''), None),
                   ((''tag/1'', ''autobot01/footprint''), Some (static_tf_msg fresh_node calib2))],
                logged :=
                  [(INFO, ''All static TFs needed have been fetched. Disabling TF listener.''),
                   (INFO, ''All static TFs needed have been fetched. Disabling TF listener.'')]\<rparr>"

section \<open>Repeated fetches\<close>

text \<open>
  The fetch timer calls \<open>_fetch_static_tfs\<close> again and again; \<open>fetch_all\<close> runs the
  calls for a list of lookup outcomes, stopping at an exception that is not caught.
  \<open>stored_edge_after\<close> is the message of the last successful lookup of the list, or the
  given one when there is none.
\<close>

fun fetch_all :: "lookup_result list \<Rightarrow> node \<Rightarrow> error + node" where
  "fetch_all [] self = Inr self"
| "fetch_all (r # rs) self =
     (case fetch_static_tfs r self of Inl e \<Rightarrow> Inl e | Inr self' \<Rightarrow> fetch_all rs self')"

definition stored_edge_after :: "node \<Rightarrow> AutolabTransform \<Rightarrow> lookup_result list \<Rightarrow> AutolabTransform" where
  "stored_edge_after self e rs =
     foldl (\<lambda>e r. case r of Found tr \<Rightarrow> static_tf_msg self tr | _ \<Rightarrow> e) e rs"

section \<open>Theorems\<close>

lemma re_sub_is_filter:
  "re_sub_class_plus_empty cls s = filter (\<lambda>c. \<not> cls c) s"
proof (induction cls s rule: re_sub_class_plus_empty.induct)
  case (1 cls)
  show ?case by simp
next
  case (2 cls c cs)
  have drop: "filter (\<lambda>c. \<not> cls c) (dropWhile cls cs) = filter (\<lambda>c. \<not> cls c) cs"
    by (induction cs) auto
  show ?case
  proof (cases "cls c")
    case True
    with "2.IH"(1) drop show ?thesis by simp
  next
    case False
    with "2.IH"(2) show ?thesis by simp
  qed
qed

lemma mem_of_char: "c \<in> set L \<longleftrightarrow> (of_char c :: nat) \<in> of_char ` set L"
  by (auto simp: image_iff)

lemma class_is_not_digit_or_letter:
  "class_neg_0_9_a_z_A_Z c \<longleftrightarrow> \<not> is_digit_or_letter c"
  unfolding class_neg_0_9_a_z_A_Z_def is_digit_or_letter_def in_range_def
  apply (subst mem_of_char)
  apply simp
  apply arith
  done

subsection \<open>The matrix of a quaternion is orthogonal\<close>

lemma quad_form:
  fixes a b c :: real
  shows "(m00*a + m01*b + m02*c) * (m00*a + m01*b + m02*c)
       + (m10*a + m11*b + m12*c) * (m10*a + m11*b + m12*c)
       + (m20*a + m21*b + m22*c) * (m20*a + m21*b + m22*c)
       = (m00*m00 + m10*m10 + m20*m20) * (a*a)
       + (m01*m01 + m11*m11 + m21*m21) * (b*b)
       + (m02*m02 + m12*m12 + m22*m22) * (c*c)
       + 2 * (m00*m01 + m10*m11 + m20*m21) * (a*b)
       + 2 * (m00*m02 + m10*m12 + m20*m22) * (a*c)
       + 2 * (m01*m02 + m11*m12 + m21*m22) * (b*c)"
  by (simp add: algebra_simps)

lemma col0:
  fixes q0 q1 q2 q3 :: real
  assumes "q0*q0 + q1*q1 + q2*q2 + q3*q3 = 2"
  shows "(1 - q1*q1 - q2*q2)*(1 - q1*q1 - q2*q2) + (q0*q1 + q2*q3)*(q0*q1 + q2*q3) + (q0*q2 - q1*q3)*(q0*q2 - q1*q3) = 1"
proof -
  have "(1 - q1*q1 - q2*q2)*(1 - q1*q1 - q2*q2) + (q0*q1 + q2*q3)*(q0*q1 + q2*q3) + (q0*q2 - q1*q3)*(q0*q2 - q1*q3)
      = 1 - (q1*q1 + q2*q2) * (2 - (q0*q0 + q1*q1 + q2*q2 + q3*q3))"
    by (simp add: algebra_simps)
  then show ?thesis using assms by simp
qed

lemma col1:
  fixes q0 q1 q2 q3 :: real
  assumes "q0*q0 + q1*q1 + q2*q2 + q3*q3 = 2"
  shows "(q0*q1 - q2*q3)*(q0*q1 - q2*q3) + (1 - q0*q0 - q2*q2)*(1 - q0*q0 - q2*q2) + (q1*q2 + q0*q3)*(q1*q2 + q0*q3) = 1"
proof -
  have "(q0*q1 - q2*q3)*(q0*q1 - q2*q3) + (1 - q0*q0 - q2*q2)*(1 - q0*q0 - q2*q2) + (q1*q2 + q0*q3)*(q1*q2 + q0*q3)
      = 1 - (q0*q0 + q2*q2) * (2 - (q0*q0 + q1*q1 + q2*q2 + q3*q3))"
    by (simp add: algebra_simps)
  then show ?thesis using assms by simp
qed

lemma col2:
  fixes q0 q1 q2 q3 :: real
  assumes "q0*q0 + q1*q1 + q2*q2 + q3*q3 = 2"
  shows "(q0*q2 + q1*q3)*(q0*q2 + q1*q3) + (q1*q2 - q0*q3)*(q1*q2 - q0*q3) + (1 - q0*q0 - q1*q1)*(1 - q0*q0 - q1*q1) = 1"
proof -
  have "(q0*q2 + q1*q3)*(q0*q2 + q1*q3) + (q1*q2 - q0*q3)*(q1*q2 - q0*q3) + (1 - q0*q0 - q1*q1)*(1 - q0*q0 - q1*q1)
      = 1 - (q0*q0 + q1*q1) * (2 - (q0*q0 + q1*q1 + q2*q2 + q3*q3))"
    by (simp add: algebra_simps)
  then show ?thesis using assms by simp
qed

lemma col01:
  fixes q0 q1 q2 q3 :: real
  assumes "q0*q0 + q1*q1 + q2*q2 + q3*q3 = 2"
  shows "(1 - q1*q1 - q2*q2)*(q0*q1 - q2*q3) + (q0*q1 + q2*q3)*(1 - q0*q0 - q2*q2) + (q0*q2 - q1*q3)*(q1*q2 + q0*q3) = 0"
proof -
  have "(1 - q1*q1 - q2*q2)*(q0*q1 - q2*q3) + (q0*q1 + q2*q3)*(1 - q0*q0 - q2*q2) + (q0*q2 - q1*q3)*(q1*q2 + q0*q3)
      = q0 * q1 * (2 - (q0*q0 + q1*q1 + q2*q2 + q3*q3))"
    by (simp add: algebra_simps)
  then show ?thesis using assms by simp
qed

lemma col02:
  fixes q0 q1 q2 q3 :: real
  assumes "q0*q0 + q1*q1 + q2*q2 + q3*q3 = 2"
  shows "(1 - q1*q1 - q2*q2)*(q0*q2 + q1*q3) + (q0*q1 + q2*q3)*(q1*q2 - q0*q3) + (q0*q2 - q1*q3)*(1 - q0*q0 - q1*q1) = 0"
proof -
  have "(1 - q1*q1 - q2*q2)*(q0*q2 + q1*q3) + (q0*q1 + q2*q3)*(q1*q2 - q0*q3) + (q0*q2 - q1*q3)*(1 - q0*q0 - q1*q1)
      = q0 * q2 * (2 - (q0*q0 + q1*q1 + q2*q2 + q3*q3))"
    by (simp add: algebra_simps)
  then show ?thesis using assms by simp
qed

lemma col12:
  fixes q0 q1 q2 q3 :: real
  assumes "q0*q0 + q1*q1 + q2*q2 + q3*q3 = 2"
  shows "(q0*q1 - q2*q3)*(q0*q2 + q1*q3) + (1 - q0*q0 - q2*q2)*(q1*q2 - q0*q3) + (q1*q2 + q0*q3)*(1 - q0*q0 - q1*q1) = 0"
proof -
  have "(q0*q1 - q2*q3)*(q0*q2 + q1*q3) + (1 - q0*q0 - q2*q2)*(q1*q2 - q0*q3) + (q1*q2 + q0*q3)*(1 - q0*q0 - q1*q1)
      = q1 * q2 * (2 - (q0*q0 + q1*q1 + q2*q2 + q3*q3))"
    by (simp add: algebra_simps)
  then show ?thesis using assms by simp
qed

lemma scaled_norm:
  fixes x y z w :: real
  assumes "\<not> x*x + y*y + z*z + w*w < EPS"
  shows "(x * sqrt (2 / (x*x + y*y + z*z + w*w))) * (x * sqrt (2 / (x*x + y*y + z*z + w*w)))
       + (y * sqrt (2 / (x*x + y*y + z*z + w*w))) * (y * sqrt (2 / (x*x + y*y + z*z + w*w)))
       + (z * sqrt (2 / (x*x + y*y + z*z + w*w))) * (z * sqrt (2 / (x*x + y*y + z*z + w*w)))
       + (w * sqrt (2 / (x*x + y*y + z*z + w*w))) * (w * sqrt (2 / (x*x + y*y + z*z + w*w))) = 2"
proof -
  define nq where "nq = x*x + y*y + z*z + w*w"
  define s where "s = sqrt (2 / nq)"
  have pos: "0 < nq" using assms by (simp add: nq_def EPS_def)
  have ss: "s * s = 2 / nq" using pos by (simp add: s_def)
  have "(x*s)*(x*s) + (y*s)*(y*s) + (z*s)*(z*s) + (w*s)*(w*s) = nq * (s * s)"
    by (simp add: nq_def algebra_simps)
  also have "\<dots> = 2" using pos by (simp add: ss)
  finally show ?thesis by (simp add: nq_def s_def)
qed

lemma rot_sq:
  fixes q0 q1 q2 q3 a b c :: real
  assumes N: "q0*q0 + q1*q1 + q2*q2 + q3*q3 = 2"
  shows "((1 - q1*q1 - q2*q2)*a + (q0*q1 - q2*q3)*b + (q0*q2 + q1*q3)*c) * ((1 - q1*q1 - q2*q2)*a + (q0*q1 - q2*q3)*b + (q0*q2 + q1*q3)*c)
       + ((q0*q1 + q2*q3)*a + (1 - q0*q0 - q2*q2)*b + (q1*q2 - q0*q3)*c) * ((q0*q1 + q2*q3)*a + (1 - q0*q0 - q2*q2)*b + (q1*q2 - q0*q3)*c)
       + ((q0*q2 - q1*q3)*a + (q1*q2 + q0*q3)*b + (1 - q0*q0 - q1*q1)*c) * ((q0*q2 - q1*q3)*a + (q1*q2 + q0*q3)*b + (1 - q0*q0 - q1*q1)*c)
       = a*a + b*b + c*c"
  by (simp only: quad_form col0 [OF N] col1 [OF N] col2 [OF N] col01 [OF N] col02 [OF N] col12 [OF N])

lemma norm3_rotation:
  "norm3 (dot3 (top_left_3x3 (quaternion_matrix q)) v) = norm3 v"
proof -
  obtain x y z w where q: "q = (x, y, z, w)" by (cases q) auto
  obtain a b c where v: "v = (a, b, c)" by (cases v) auto
  show ?thesis
  proof (cases "x*x + y*y + z*z + w*w < EPS")
    case True
    then show ?thesis by (simp add: q v)
  next
    case False
    note N = scaled_norm [OF False]
    show ?thesis
      using False by (simp add: q v Let_def rot_sq [OF N])
  qed
qed

subsection \<open>Evaluation lemmas\<close>

lemma init_fresh_node:
  "init (Some ''autobot01'') (Some ''lab-1'') (Some ''1'') ConnectivityException = Inr fresh_node"
  by (simp add: init_def fetch_static_tfs_def publish_static_tfs_def snapshot_def
      dict_values_def publish_def sanitize_hostname_def class_neg_0_9_a_z_A_Z_def in_range_def
      MIN_DIST_ODOM_def fresh_node_def)

lemma init_odom_node:
  "init (Some ''autobot01'') (Some ''lab-1'') (Some ''__NOTSET__'') r = Inr odom_node"
  by (simp add: init_def sanitize_hostname_def class_neg_0_9_a_z_A_Z_def in_range_def
      MIN_DIST_ODOM_def odom_node_def)

lemma norm3_x_axis: "norm3 (x, 0, 0) = \<bar>x\<bar>"
  by simp

lemma cb_odometry_first:
  "pose_last self = None \<Longrightarrow> cb_odometry pose_now self = self\<lparr>pose_last := Some pose_now\<rparr>"
  by (simp add: cb_odometry_def)

lemma cb_odometry_later:
  "pose_last self = Some last_pose \<Longrightarrow>
   cb_odometry pose_now self =
     (if norm3 (t_now_to_last last_pose pose_now) < min_dist_odom self then self
      else publish (Some (odometry_tf_msg self last_pose pose_now)) (map_name self) self)"
  by (simp add: cb_odometry_def Let_def)

lemma t_now_to_last_norm:
  "norm3 (t_now_to_last last_pose pose_now) = norm3 (sub3 (position pose_now) (position last_pose))"
  by (simp add: t_now_to_last_def Let_def norm3_rotation)

lemma foldl_append_each: "foldl (\<lambda>tfs t. tfs @ [t]) acc xs = acc @ xs"
  by (induction xs arbitrary: acc) simp_all

lemma snapshot_values: "snapshot self = map snd (static_tfs self)"
  by (simp add: snapshot_def dict_values_def foldl_append_each)

lemma static_tf_msg_same:
  "tag_frame self' = tag_frame self \<and> footprint_frame self' = footprint_frame self
   \<and> robot_hostname self' = robot_hostname self \<Longrightarrow> static_tf_msg self' = static_tf_msg self"
  by (rule ext) (simp add: static_tf_msg_def)

lemma fetch_connectivity: "fetch_static_tfs ConnectivityException self = Inr self"
  by (simp add: fetch_static_tfs_def)

lemma dict_get_set: "dict_get (dict_set d k v) k = Some v"
  by (induction d) (auto simp: dict_get_def)

lemma dict_get_in_values: "dict_get d k = Some v \<Longrightarrow> v \<in> set (map snd d)"
  by (auto simp: dict_get_def dest: map_of_SomeD intro: rev_image_eqI)

lemma fetch_keeps_names:
  "fetch_static_tfs r self = Inr self' \<Longrightarrow>
   tag_frame self' = tag_frame self \<and> footprint_frame self' = footprint_frame self
   \<and> robot_hostname self' = robot_hostname self"
  by (auto simp: fetch_static_tfs_def Let_def split: lookup_result.splits option.splits)

lemma fetch_stored:
  assumes "dict_get (static_tfs self) (tag_frame self, footprint_frame self) = Some (Some e)"
    and "fetch_static_tfs r self = Inr self'"
  shows "dict_get (static_tfs self') (tag_frame self, footprint_frame self)
         = Some (Some (case r of Found tr \<Rightarrow> static_tf_msg self tr | _ \<Rightarrow> e))"
  using assms
  by (auto simp: fetch_static_tfs_def Let_def dict_get_set split: lookup_result.splits option.splits)

lemma fetch_all_stored:
  assumes "dict_get (static_tfs self) (tag_frame self, footprint_frame self) = Some (Some e)"
    and "fetch_all rs self = Inr self'"
  shows "dict_get (static_tfs self') (tag_frame self, footprint_frame self)
         = Some (Some (stored_edge_after self e rs))"
  using assms
proof (induction rs arbitrary: self e)
  case Nil
  then show ?case by (simp add: stored_edge_after_def)
next
  case (Cons r rs)
  from Cons.prems(2) obtain s1 where s1: "fetch_static_tfs r self = Inr s1"
    and rest: "fetch_all rs s1 = Inr self'"
    by (auto split: sum.splits)
  note names = fetch_keeps_names [OF s1]
  let ?e1 = "case r of Found tr \<Rightarrow> static_tf_msg self tr | _ \<Rightarrow> e"
  have "dict_get (static_tfs s1) (tag_frame s1, footprint_frame s1) = Some (Some ?e1)"
    using fetch_stored [OF Cons.prems(1) s1] names by simp
  from Cons.IH [OF this rest]
  have "dict_get (static_tfs self') (tag_frame self, footprint_frame self)
        = Some (Some (stored_edge_after s1 ?e1 rs))"
    using names by simp
  moreover have "stored_edge_after s1 ?e1 rs = stored_edge_after self e (r # rs)"
    by (simp add: stored_edge_after_def static_tf_msg_same [OF names])
  ultimately show ?case by simp
qed

lemma fetch_found:
  "\<exists>self'. fetch_static_tfs (Found tr) self = Inr self'
     \<and> dict_get (static_tfs self') (tag_frame self, footprint_frame self) = Some (Some (static_tf_msg self tr))"
  by (auto simp: fetch_static_tfs_def Let_def dict_get_set split: option.splits)

lemma fetch_fresh: "fetch_static_tfs (Found calib1) fresh_node = Inr fetched_node"
  by (simp add: fetch_static_tfs_def fresh_node_def fetched_node_def Let_def)

lemma fetch_again: "fetch_static_tfs (Found calib2) fetched_node = Inr refetched_node"
  by (simp add: fetch_static_tfs_def fresh_node_def fetched_node_def refetched_node_def Let_def static_tf_msg_def)

lemma seeded: "cb_odometry pose0 odom_node = odom_node\<lparr>pose_last := Some pose0\<rparr>"
  by (simp add: cb_odometry_first odom_node_def)

lemma EPS_small: "\<not> (1::real) < EPS"
  by (simp add: EPS_def)

lemma dist_far: "norm3 (t_now_to_last pose0 pose_far) = 3 / 10"
  by (simp add: t_now_to_last_norm pose0_def pose_far_def norm3_x_axis del: norm3.simps)

lemma dist_near: "norm3 (t_now_to_last pose0 pose_near) = 1 / 10"
  by (simp add: t_now_to_last_norm pose0_def pose_near_def norm3_x_axis del: norm3.simps)

lemma dist_turned: "norm3 (t_now_to_last pose0 pose_turned) = 1"
  by (simp add: t_now_to_last_norm pose0_def pose_turned_def)

lemma q_far: "q_now_to_last pose0 pose_far = (0, 0, 0, - 1)"
  by (simp add: q_now_to_last_def pose0_def pose_far_def)

lemma q_turned: "q_now_to_last pose0 pose_turned = (0, 0, - 1, 0)"
  by (simp add: q_now_to_last_def pose0_def pose_turned_def)

lemma t_turned: "t_now_to_last pose0 pose_turned = (- 1, 0, 0)"
  by (simp add: t_now_to_last_def q_turned EPS_small Let_def) (simp add: pose0_def pose_turned_def)

lemma emit_far:
  "cb_odometry pose_far (odom_node\<lparr>pose_last := Some pose0\<rparr>)
   = publish (Some (odometry_tf_msg odom_node pose0 pose_far)) ''lab1''
       (odom_node\<lparr>pose_last := Some pose0\<rparr>)"
  by (simp add: cb_odometry_later dist_far)
     (simp add: odom_node_def odometry_tf_msg_def)

lemma emit_turned:
  "cb_odometry pose_turned (odom_node\<lparr>pose_last := Some pose0\<rparr>)
   = publish (Some (odometry_tf_msg odom_node pose0 pose_turned)) ''lab1''
       (odom_node\<lparr>pose_last := Some pose0\<rparr>)"
  by (simp add: cb_odometry_later dist_turned)
     (simp add: odom_node_def odometry_tf_msg_def)

lemma negate_w_conjugate: "negate_w q = negate_all (quaternion_conjugate q)"
  by (cases q) simp

lemma multiply_negate_all:
  "quaternion_multiply (negate_all p) q = negate_all (quaternion_multiply p q)"
  by (cases p, cases q) simp

subsection \<open>The odometry callback\<close>

text \<open>
  Claim C1. After an edge is emitted the stored reference pose should be the observed
  pose. The callback assigns \<open>_pose_last\<close> only in its first call: at the poses below an
  edge from \<open>pose0\<close> to \<open>pose_far\<close> is published and the reference is still \<open>pose0\<close>.
\<close>

theorem reference_pose_not_advanced:
  "init (Some ''autobot01'') (Some ''lab-1'') (Some ''__NOTSET__'') ConnectivityException = Inr odom_node
   \<and> published (cb_odometry pose_far (cb_odometry pose0 odom_node))
     = published odom_node @ [(Some (odometry_tf_msg odom_node pose0 pose_far), ''lab1'')]
   \<and> pose_last (cb_odometry pose_far (cb_odometry pose0 odom_node)) = Some pose0
   \<and> pose0 \<noteq> pose_far"
proof (intro conjI)
  show "init (Some ''autobot01'') (Some ''lab-1'') (Some ''__NOTSET__'') ConnectivityException = Inr odom_node"
    by (rule init_odom_node)
  show "published (cb_odometry pose_far (cb_odometry pose0 odom_node))
     = published odom_node @ [(Some (odometry_tf_msg odom_node pose0 pose_far), ''lab1'')]"
    by (simp add: seeded emit_far publish_def)
  show "pose_last (cb_odometry pose_far (cb_odometry pose0 odom_node)) = Some pose0"
    by (simp add: seeded emit_far publish_def)
  show "pose0 \<noteq> pose_far"
    by (simp add: pose0_def pose_far_def)
qed

text \<open>
  Claim C4. The emitted translation should be the displacement rotated by the conjugate of
  the reference orientation. The callback multiplies the displacement by the matrix of the
  relative rotation \<open>q_now_to_last\<close> instead: with the reference at the origin, not turned,
  and the new pose one unit ahead and turned by half a turn, the emitted translation is
  \<open>(-1, 0, 0)\<close> where the rotation by the conjugate gives \<open>(1, 0, 0)\<close>.
\<close>

theorem translation_rotated_by_relative_rotation:
  "published (cb_odometry pose_turned (cb_odometry pose0 odom_node))
     = published odom_node @ [(Some (odometry_tf_msg odom_node pose0 pose_turned), ''lab1'')]
   \<and> translation (transform (odometry_tf_msg odom_node pose0 pose_turned)) = (- 1, 0, 0)
   \<and> rotate_by (quaternion_conjugate (orientation pose0))
        (sub3 (position pose_turned) (position pose0)) = (1, 0, 0)"
proof (intro conjI)
  show "published (cb_odometry pose_turned (cb_odometry pose0 odom_node))
     = published odom_node @ [(Some (odometry_tf_msg odom_node pose0 pose_turned), ''lab1'')]"
    by (simp add: seeded emit_turned publish_def)
  show "translation (transform (odometry_tf_msg odom_node pose0 pose_turned)) = (- 1, 0, 0)"
    by (simp add: odometry_tf_msg_def t_turned)
  show "rotate_by (quaternion_conjugate (orientation pose0))
        (sub3 (position pose_turned) (position pose0)) = (1, 0, 0)"
    by (simp add: rotate_by_def pose0_def pose_turned_def EPS_small)
qed

text \<open>
  Claim C5, as stated: the emitted rotation is the product of the conjugate of the reference
  orientation and the new orientation. It fails for two poses that are not turned: the
  product is \<open>(0, 0, 0, 1)\<close> and the emitted quaternion is \<open>(0, 0, 0, -1)\<close>.
\<close>

theorem rotation_is_not_conjugate_product:
  "published (cb_odometry pose_far (cb_odometry pose0 odom_node))
     = published odom_node @ [(Some (odometry_tf_msg odom_node pose0 pose_far), ''lab1'')]
   \<and> rotation (transform (odometry_tf_msg odom_node pose0 pose_far)) = (0, 0, 0, - 1)
   \<and> quaternion_multiply (quaternion_conjugate (orientation pose0)) (orientation pose_far)
       = (0, 0, 0, 1)"
proof (intro conjI)
  show "published (cb_odometry pose_far (cb_odometry pose0 odom_node))
     = published odom_node @ [(Some (odometry_tf_msg odom_node pose0 pose_far), ''lab1'')]"
    by (simp add: seeded emit_far publish_def)
  show "rotation (transform (odometry_tf_msg odom_node pose0 pose_far)) = (0, 0, 0, - 1)"
    by (simp add: odometry_tf_msg_def q_far)
  show "quaternion_multiply (quaternion_conjugate (orientation pose0)) (orientation pose_far)
       = (0, 0, 0, 1)"
    by (simp add: pose0_def pose_far_def)
qed

text \<open>
  Claim C5, amended. The callback negates the \<open>w\<close> component of the reference orientation,
  which is the negated conjugate, so every emitted rotation is the negation of the product
  of the conjugate of the reference orientation and the new orientation: the same rotation,
  with the opposite sign on all four components.
\<close>

theorem rotation_is_negated_conjugate_product:
  assumes "pose_last self = Some last_pose"
    and "\<not> norm3 (t_now_to_last last_pose pose_now) < min_dist_odom self"
  shows "\<exists>e. published (cb_odometry pose_now self) = published self @ [(Some e, map_name self)]
           \<and> rotation (transform e)
               = negate_all (quaternion_multiply (quaternion_conjugate (orientation last_pose))
                               (orientation pose_now))"
  using assms
  by (simp add: cb_odometry_later publish_def odometry_tf_msg_def q_now_to_last_def
      negate_w_conjugate multiply_negate_all)

theorem rotation_is_negated_conjugate_product_witness:
  "pose_last (cb_odometry pose0 odom_node) = Some pose0
   \<and> \<not> norm3 (t_now_to_last pose0 pose_far) < min_dist_odom (cb_odometry pose0 odom_node)
   \<and> (\<exists>e. published (cb_odometry pose_far (cb_odometry pose0 odom_node))
              = published (cb_odometry pose0 odom_node) @ [(Some e, map_name (cb_odometry pose0 odom_node))]
           \<and> rotation (transform e)
               = negate_all (quaternion_multiply (quaternion_conjugate (orientation pose0))
                               (orientation pose_far)))"
proof -
  have a: "pose_last (cb_odometry pose0 odom_node) = Some pose0" by (simp add: seeded)
  have b: "\<not> norm3 (t_now_to_last pose0 pose_far) < min_dist_odom (cb_odometry pose0 odom_node)"
    by (simp add: dist_far seeded) (simp add: odom_node_def)
  show ?thesis
    using rotation_is_negated_conjugate_product [OF a b] a b by simp
qed

text \<open>
  Claim C6. After the first call, with \<open>dist\<close> the norm of the relative translation: below
  0.2 nothing is published, and from 0.2 on one edge is published whose translation has the
  norm \<open>dist\<close>.
\<close>

theorem gate_on_distance:
  assumes "pose_last self = Some last_pose"
    and "min_dist_odom self = MIN_DIST_ODOM"
  shows "(norm3 (t_now_to_last last_pose pose_now) < 0.2 \<longrightarrow>
            published (cb_odometry pose_now self) = published self)
       \<and> (0.2 \<le> norm3 (t_now_to_last last_pose pose_now) \<longrightarrow>
            (\<exists>e. published (cb_odometry pose_now self) = published self @ [(Some e, map_name self)]
               \<and> norm3 (translation (transform e)) = norm3 (t_now_to_last last_pose pose_now)))"
  using assms
  by (simp add: cb_odometry_later MIN_DIST_ODOM_def publish_def odometry_tf_msg_def)

theorem gate_on_distance_witness:
  "pose_last (cb_odometry pose0 odom_node) = Some pose0
   \<and> min_dist_odom (cb_odometry pose0 odom_node) = MIN_DIST_ODOM
   \<and> norm3 (t_now_to_last pose0 pose_near) < 0.2
   \<and> published (cb_odometry pose_near (cb_odometry pose0 odom_node))
        = published (cb_odometry pose0 odom_node)
   \<and> 0.2 \<le> norm3 (t_now_to_last pose0 pose_far)
   \<and> (\<exists>e. published (cb_odometry pose_far (cb_odometry pose0 odom_node))
              = published (cb_odometry pose0 odom_node) @ [(Some e, map_name (cb_odometry pose0 odom_node))]
           \<and> norm3 (translation (transform e)) = norm3 (t_now_to_last pose0 pose_far))"
proof -
  have a: "pose_last (cb_odometry pose0 odom_node) = Some pose0" by (simp add: seeded)
  have b: "min_dist_odom (cb_odometry pose0 odom_node) = MIN_DIST_ODOM"
    by (simp add: seeded) (simp add: odom_node_def MIN_DIST_ODOM_def)
  have c: "norm3 (t_now_to_last pose0 pose_near) < 0.2" by (simp add: dist_near)
  have d: "0.2 \<le> norm3 (t_now_to_last pose0 pose_far)" by (simp add: dist_far)
  show ?thesis
    using gate_on_distance [OF a b, of pose_near] gate_on_distance [OF a b, of pose_far] a b c d
    by simp
qed

text \<open>
  Claim C8. The first call of the callback publishes nothing and stores the pose as the
  reference.
\<close>

theorem first_observe_stores_pose:
  assumes "pose_last self = None"
  shows "published (cb_odometry pose_now self) = published self
         \<and> pose_last (cb_odometry pose_now self) = Some pose_now"
  using assms by (simp add: cb_odometry_first)

theorem first_observe_stores_pose_witness:
  "pose_last odom_node = None
   \<and> published (cb_odometry pose0 odom_node) = published odom_node
   \<and> pose_last (cb_odometry pose0 odom_node) = Some pose0"
  using first_observe_stores_pose [of odom_node pose0] by (simp add: odom_node_def)

text \<open>
  Claim C10. The gating distance is the norm of the displacement in the world frame, since
  the matrix of a quaternion is orthogonal, so whether an edge is emitted depends on the two
  positions and the threshold only.
\<close>

theorem gating_distance_ignores_orientation:
  "norm3 (t_now_to_last last_pose pose_now) = norm3 (sub3 (position pose_now) (position last_pose))
   \<and> (pose_last self = Some last_pose \<longrightarrow>
        (published (cb_odometry pose_now self) = published self
           \<longleftrightarrow> norm3 (sub3 (position pose_now) (position last_pose)) < min_dist_odom self))"
proof
  show "norm3 (t_now_to_last last_pose pose_now) = norm3 (sub3 (position pose_now) (position last_pose))"
    by (rule t_now_to_last_norm)
  show "pose_last self = Some last_pose \<longrightarrow>
        (published (cb_odometry pose_now self) = published self
           \<longleftrightarrow> norm3 (sub3 (position pose_now) (position last_pose)) < min_dist_odom self)"
    by (simp add: cb_odometry_later t_now_to_last_norm publish_def)
qed

theorem gating_distance_ignores_orientation_witness:
  "pose_last (cb_odometry pose0 odom_node) = Some pose0
   \<and> norm3 (t_now_to_last pose0 pose_turned) = norm3 (sub3 (position pose_turned) (position pose0))
   \<and> (published (cb_odometry pose_turned (cb_odometry pose0 odom_node))
          = published (cb_odometry pose0 odom_node)
        \<longleftrightarrow> norm3 (sub3 (position pose_turned) (position pose0))
              < min_dist_odom (cb_odometry pose0 odom_node))"
proof -
  have a: "pose_last (cb_odometry pose0 odom_node) = Some pose0" by (simp add: seeded)
  show ?thesis
    using gating_distance_ignores_orientation [of pose0 pose_turned "cb_odometry pose0 odom_node"] a
    by simp
qed

subsection \<open>The static transforms\<close>

text \<open>
  Claim C2, as stated: after a successful fetch a repeated fetch is a no-op that does not
  overwrite the stored edge. The fetch has no such test: a second successful lookup with
  another result replaces the stored message.
\<close>

theorem refetch_overwrites:
  "fetch_static_tfs (Found calib1) fresh_node = Inr fetched_node
   \<and> fetch_static_tfs (Found calib2) fetched_node = Inr refetched_node
   \<and> snapshot fetched_node = [None, Some (static_tf_msg fresh_node calib1)]
   \<and> snapshot refetched_node = [None, Some (static_tf_msg fresh_node calib2)]
   \<and> static_tf_msg fresh_node calib1 \<noteq> static_tf_msg fresh_node calib2"
  by (simp add: fetch_fresh fetch_again snapshot_values)
     (simp add: fetched_node_def refetched_node_def static_tf_msg_def calib1_def calib2_def)

text \<open>
  Claim C2, amended. Once a fetch has succeeded, the entry of the fetched key is never
  cleared: after any further fetches it holds a message, which every snapshot contains. The
  message is the one of the latest successful lookup (\<open>stored_edge_after\<close>); failed attempts
  leave it as it is.
\<close>

theorem fetched_edge_never_cleared:
  assumes "fetch_static_tfs (Found tr) self0 = Inr self"
    and "fetch_all rs self = Inr self'"
  shows "dict_get (static_tfs self') (tag_frame self0, footprint_frame self0)
           = Some (Some (stored_edge_after self0 (static_tf_msg self0 tr) rs))
       \<and> Some (stored_edge_after self0 (static_tf_msg self0 tr) rs) \<in> set (snapshot self')"
proof -
  note names = fetch_keeps_names [OF assms(1)]
  from fetch_found [of tr self0] assms(1)
  have "dict_get (static_tfs self) (tag_frame self, footprint_frame self) = Some (Some (static_tf_msg self0 tr))"
    using names by auto
  from fetch_all_stored [OF this assms(2)]
  have "dict_get (static_tfs self') (tag_frame self0, footprint_frame self0)
        = Some (Some (stored_edge_after self (static_tf_msg self0 tr) rs))"
    using names by simp
  moreover have "stored_edge_after self (static_tf_msg self0 tr) rs = stored_edge_after self0 (static_tf_msg self0 tr) rs"
    by (simp add: stored_edge_after_def static_tf_msg_same [OF names])
  ultimately show ?thesis
    using dict_get_in_values by (simp add: snapshot_values) 
qed

theorem fetched_edge_never_cleared_witness:
  "fetch_static_tfs (Found calib1) fresh_node = Inr fetched_node
   \<and> fetch_all [ConnectivityException, Found calib2] fetched_node = Inr refetched_node
   \<and> dict_get (static_tfs refetched_node) (tag_frame fresh_node, footprint_frame fresh_node)
        = Some (Some (static_tf_msg fresh_node calib2))
   \<and> Some (static_tf_msg fresh_node calib2) \<in> set (snapshot refetched_node)"
proof -
  have a: "fetch_static_tfs (Found calib1) fresh_node = Inr fetched_node" by (rule fetch_fresh)
  have b: "fetch_all [ConnectivityException, Found calib2] fetched_node = Inr refetched_node"
    by (simp add: fetch_connectivity fetch_again)
  show ?thesis
    using fetched_edge_never_cleared [OF a b] a b by (simp add: stored_edge_after_def)
qed

text \<open>
  Claim C3. The snapshot should hold the present edges only. The dictionary is created with
  the key \<open>(footprint, tag)\<close> bound to \<open>None\<close>, the fetch stores under \<open>(tag, footprint)\<close>,
  and the publish action copies every value: before the first successful fetch the
  snapshot is \<open>[None]\<close> and \<open>None\<close> is handed to the publisher, and after it the snapshot
  still starts with \<open>None\<close>.
\<close>

theorem snapshot_holds_none:
  "init (Some ''autobot01'') (Some ''lab-1'') (Some ''1'') ConnectivityException = Inr fresh_node
   \<and> snapshot fresh_node = [None]
   \<and> published fresh_node = [(None, ''lab1'')]
   \<and> published (publish_static_tfs fresh_node) = [(None, ''lab1''), (None, ''lab1'')]
   \<and> fetch_static_tfs (Found calib1) fresh_node = Inr fetched_node
   \<and> snapshot fetched_node = [None, Some (static_tf_msg fresh_node calib1)]"
  by (simp add: init_fresh_node fetch_fresh snapshot_values)
     (simp add: fresh_node_def fetched_node_def publish_static_tfs_def snapshot_values publish_def)

text \<open>
  Claim C7. A fetch whose lookup fails with a lookup, extrapolation or connectivity
  exception returns normally and leaves the dictionary, and so the snapshot, as it was.
\<close>

theorem failed_fetch_stores_nothing:
  assumes "r = LookupException \<or> r = ExtrapolationException \<or> r = ConnectivityException"
  shows "\<exists>self'. fetch_static_tfs r self = Inr self'
           \<and> static_tfs self' = static_tfs self \<and> snapshot self' = snapshot self"
  using assms by (auto simp: fetch_static_tfs_def snapshot_def)

theorem failed_fetch_stores_nothing_witness:
  "(ConnectivityException = LookupException \<or> ConnectivityException = ExtrapolationException
      \<or> ConnectivityException = ConnectivityException)
   \<and> (\<exists>self'. fetch_static_tfs ConnectivityException fetched_node = Inr self'
           \<and> static_tfs self' = static_tfs fetched_node \<and> snapshot self' = snapshot fetched_node)"
  using failed_fetch_stores_nothing [of ConnectivityException fetched_node] by simp

subsection \<open>Sanitisation\<close>

text \<open>
  Claim C9. Sanitisation deletes exactly the characters that are neither a digit nor a
  letter, and maps \<open>auto-bot_01!\<close> to \<open>autobot01\<close>.
\<close>

theorem sanitize_hostname_keeps_digits_and_letters:
  "sanitize_hostname s = filter is_digit_or_letter s
   \<and> sanitize_hostname ''auto-bot_01!'' = ''autobot01''"
proof
  show "sanitize_hostname s = filter is_digit_or_letter s"
    by (simp add: sanitize_hostname_def re_sub_is_filter class_is_not_digit_or_letter)
  show "sanitize_hostname ''auto-bot_01!'' = ''autobot01''"
    by (simp add: sanitize_hostname_def class_neg_0_9_a_z_A_Z_def in_range_def)
qed

end
